theory Spec2Isabelle
  imports Complex_Main "HOL-Library.AList" "HOL-Library.Sublist"
begin

section \<open>Python values\<close>

text \<open>
  Exceptions are values. Every constructor stands for a subclass of Python's
  \<^verbatim>\<open>Exception\<close>, so \<^verbatim>\<open>except Exception\<close> catches all of them;
  \<^verbatim>\<open>except zipfile.BadZipFile\<close> and \<^verbatim>\<open>except RuntimeError\<close> catch one
  constructor each. The argument is the text that \<^verbatim>\<open>str(e)\<close> returns.
\<close>

datatype exn =
    OSError string
  | BadZipFile string
  | ValueError string
  | IndexError string
  | RuntimeError string
  | OtherError string

fun exn_str :: "exn \<Rightarrow> string" where
  "exn_str (OSError m) = m"
| "exn_str (BadZipFile m) = m"
| "exn_str (ValueError m) = m"
| "exn_str (IndexError m) = m"
| "exn_str (RuntimeError m) = m"
| "exn_str (OtherError m) = m"

text \<open>
  A computation reads and updates a state and either raises or returns:
  \<open>Inl e\<close> is a raised exception, \<open>Inr x\<close> a returned value.
\<close>

type_synonym ('s, 'a) prog = "'s \<Rightarrow> (exn + 'a) \<times> 's"

definition ereturn :: "'a \<Rightarrow> ('s, 'a) prog" where
  "ereturn x = (\<lambda>s. (Inr x, s))"

definition eraise :: "exn \<Rightarrow> ('s, 'a) prog" where
  "eraise e = (\<lambda>s. (Inl e, s))"

definition ebind :: "('s, 'a) prog \<Rightarrow> ('a \<Rightarrow> ('s, 'b) prog) \<Rightarrow> ('s, 'b) prog" where
  "ebind m f = (\<lambda>s. case m s of (Inl e, s') \<Rightarrow> (Inl e, s') | (Inr x, s') \<Rightarrow> f x s')"

text \<open>\<^verbatim>\<open>try: m  except Exception as e: h e\<close>\<close>

definition etry :: "('s, 'a) prog \<Rightarrow> (exn \<Rightarrow> ('s, 'a) prog) \<Rightarrow> ('s, 'a) prog" where
  "etry m h = (\<lambda>s. case m s of (Inl e, s') \<Rightarrow> h e s' | (Inr x, s') \<Rightarrow> (Inr x, s'))"

subsection \<open>Strings\<close>

text \<open>\<^verbatim>\<open>sub in s\<close> on strings: \<open>sub\<close> occurs in \<open>s\<close> as a contiguous run.\<close>

fun contains :: "string \<Rightarrow> string \<Rightarrow> bool" where
  "contains sub [] = (sub = [])"
| "contains sub (c # cs) = (prefix sub (c # cs) \<or> contains sub cs)"

text \<open>
  The leftmost occurrence of \<open>sep\<close> in \<open>s\<close>: the text before it and the text after it
  (what \<^verbatim>\<open>s.partition(sep)\<close> finds), or \<open>None\<close> when \<open>sep\<close> does not occur.
\<close>

fun split_first :: "string \<Rightarrow> string \<Rightarrow> (string \<times> string) option" where
  "split_first sep [] = (if sep = [] then Some ([], []) else None)"
| "split_first sep (c # cs) =
     (if prefix sep (c # cs) then Some ([], drop (length sep) (c # cs))
      else map_option (\<lambda>(a, b). (c # a, b)) (split_first sep cs))"

lemma split_first_shorter:
  "split_first sep s = Some (a, b) \<Longrightarrow> sep \<noteq> [] \<Longrightarrow> length b < length s"
  by (induction s arbitrary: a) (auto split: if_splits)

text \<open>
  \<^verbatim>\<open>s.split(sep)\<close>: cut at every occurrence of \<open>sep\<close>, scanning from the left,
  occurrences not overlapping. Python raises \<^verbatim>\<open>ValueError\<close> on an empty
  separator; the source passes only the literals \<^verbatim>\<open>'file/d/'\<close>, \<^verbatim>\<open>'/'\<close>,
  \<^verbatim>\<open>'id='\<close> and \<^verbatim>\<open>'&'\<close>, and the empty separator returns \<open>[s]\<close> here only to
  keep the function total.
\<close>

function py_split :: "string \<Rightarrow> string \<Rightarrow> string list" where
  "py_split sep s =
     (if sep = [] then [s]
      else case split_first sep s of
             None \<Rightarrow> [s]
           | Some (a, b) \<Rightarrow> a # py_split sep b)"
  by pat_completeness auto
termination
  by (relation "measure (\<lambda>(sep, s). length s)") (auto dest: split_first_shorter)

declare py_split.simps [simp del]

text \<open>\<^verbatim>\<open>xs[i]\<close> for \<open>i \<ge> 0\<close>: \<^verbatim>\<open>IndexError\<close> out of range.\<close>

definition py_index :: "'a list \<Rightarrow> nat \<Rightarrow> exn + 'a" where
  "py_index xs i =
     (if i < length xs then Inr (xs ! i) else Inl (IndexError ''list index out of range''))"

text \<open>\<^verbatim>\<open>int(x)\<close> on a float truncates towards zero; \<^verbatim>\<open>str(i)\<close> is decimal.\<close>

definition py_int :: "real \<Rightarrow> int" where
  "py_int x = (if x < 0 then \<lceil>x\<rceil> else \<lfloor>x\<rfloor>)"

fun str_nat :: "nat \<Rightarrow> string" where
  "str_nat n =
     (if n < 10 then [''0123456789'' ! n]
      else str_nat (n div 10) @ [''0123456789'' ! (n mod 10)])"

declare str_nat.simps [simp del]

definition str_int :: "int \<Rightarrow> string" where
  "str_int i = (if i < 0 then CHR ''-'' # str_nat (nat (- i)) else str_nat (nat i))"

section \<open>The file system, the network and the clock\<close>

text \<open>
  A path is the list of its components below the working directory; \<open>[]\<close> is the
  working directory itself, which always exists. \<^verbatim>\<open>Path.parent\<close> drops the last
  component, \<^verbatim>\<open>cache_dir / name\<close> appends one, \<^verbatim>\<open>str(path)\<close> joins with
  \<^verbatim>\<open>/\<close>.
\<close>

type_synonym path = "string list"

definition parent :: "path \<Rightarrow> path" where
  "parent p = butlast p"

fun join_path :: "path \<Rightarrow> string" where
  "join_path [] = []"
| "join_path [c] = c"
| "join_path (c # d # cs) = c @ ''/'' @ join_path (d # cs)"

definition path_str :: "path \<Rightarrow> string" where
  "path_str p = (if p = [] then ''.'' else join_path p)"

text \<open>
  What a regular file holds, as far as \<^verbatim>\<open>zipfile.ZipFile\<close> can tell: a zip
  container with its entries in \<^verbatim>\<open>filelist\<close> order, or anything else. An entry
  has its name (the components of \<^verbatim>\<open>filename\<close>), its \<^verbatim>\<open>file_size\<close>, whether
  it is a directory entry, and the content it unpacks to.
\<close>

datatype payload = Opaque | Zip "zentry list"
and zentry = ZEntry (zname: path) (file_size: nat) (zis_dir: bool) (zdata: payload)

datatype kind = Regular payload | Directory

datatype node = Node (kind: kind) (st_size: nat) (st_mtime: real)

datatype fs_op = OpMkdir | OpStat | OpUnlink | OpOpen | OpWrite | OpListdir

text \<open>
  The behaviour of the collaborators the code calls, fixed for one run and otherwise
  arbitrary:
  \<^item> \<open>guess_type\<close> is \<^verbatim>\<open>mimetypes.guess_type(name)[0]\<close>, a table lookup on the name;
  \<^item> \<open>head_content_type\<close> is \<^verbatim>\<open>requests.head(url, allow_redirects=True).headers.get('content-type')\<close>,
    which may raise;
  \<^item> \<open>gdown_download\<close> is \<^verbatim>\<open>gdown.download(url, output, quiet=False)\<close>: it raises or
    returns a truthy or falsy value, and it may leave a file of some size and content
    at the output path in either case;
  \<^item> \<open>fault\<close> lets an operating-system call on a path fail (permissions, a full disk):
    when it is \<open>Some e\<close> the call raises \<open>e\<close> and changes nothing.
\<close>

record env =
  guess_type :: "string \<Rightarrow> string option"
  head_content_type :: "string \<Rightarrow> exn + string option"
  gdown_download :: "string \<Rightarrow> path \<Rightarrow> (exn + bool) \<times> (nat \<times> payload) option"
  fault :: "fs_op \<Rightarrow> path \<Rightarrow> exn option"

text \<open>
  The state: the directory tree as an association list in the order a directory
  scan yields it, the value of \<^verbatim>\<open>time.time()\<close>, the records handed to
  \<^verbatim>\<open>self.logger\<close>, and the calls made to \<^verbatim>\<open>gdown.download\<close>.
\<close>

record world =
  nodes :: "(path \<times> node) list"
  now :: real
  log :: "(string \<times> string) list"
  transfers :: "(string \<times> path) list"

definition lookup :: "world \<Rightarrow> path \<Rightarrow> node option" where
  "lookup w p = (if p = [] then Some (Node Directory 4096 0) else map_of (nodes w) p)"

definition is_dir :: "world \<Rightarrow> path \<Rightarrow> bool" where
  "is_dir w p = (case lookup w p of Some n \<Rightarrow> kind n = Directory | None \<Rightarrow> False)"

text \<open>\<^verbatim>\<open>path.exists()\<close>\<close>

definition path_exists :: "path \<Rightarrow> (world, bool) prog" where
  "path_exists p = (\<lambda>w. (Inr (lookup w p \<noteq> None), w))"

text \<open>\<^verbatim>\<open>self.logger.info / warning / error\<close>\<close>

definition logger :: "string \<Rightarrow> string \<Rightarrow> (world, unit) prog" where
  "logger level msg = (\<lambda>w. (Inr (), w\<lparr>log := log w @ [(level, msg)]\<rparr>))"

text \<open>\<^verbatim>\<open>path.stat()\<close>\<close>

definition stat :: "env \<Rightarrow> path \<Rightarrow> (world, node) prog" where
  "stat env p =
     (\<lambda>w. case fault env OpStat p of
             Some e \<Rightarrow> (Inl e, w)
           | None \<Rightarrow>
               (case lookup w p of
                  None \<Rightarrow> (Inl (OSError ''No such file or directory''), w)
                | Some n \<Rightarrow> (Inr n, w)))"

text \<open>\<^verbatim>\<open>path.unlink()\<close>: removes a regular file, raises on a directory or a missing path.\<close>

definition unlink :: "env \<Rightarrow> path \<Rightarrow> (world, unit) prog" where
  "unlink env p =
     (\<lambda>w. case fault env OpUnlink p of
             Some e \<Rightarrow> (Inl e, w)
           | None \<Rightarrow>
               (case lookup w p of
                  None \<Rightarrow> (Inl (OSError ''No such file or directory''), w)
                | Some n \<Rightarrow>
                    if kind n = Directory then (Inl (OSError ''Is a directory''), w)
                    else (Inr (), w\<lparr>nodes := AList.delete p (nodes w)\<rparr>)))"

text \<open>\<^verbatim>\<open>os.mkdir(p)\<close> on a path that does not exist and whose parent is a directory.\<close>

definition os_mkdir :: "env \<Rightarrow> path \<Rightarrow> (world, unit) prog" where
  "os_mkdir env p =
     (\<lambda>w. case fault env OpMkdir p of
             Some e \<Rightarrow> (Inl e, w)
           | None \<Rightarrow> (Inr (), w\<lparr>nodes := AList.update p (Node Directory 4096 (now w)) (nodes w)\<rparr>))"

text \<open>
  \<^verbatim>\<open>path.mkdir(parents=True, exist_ok=True)\<close>: nothing to do for a directory, an
  error for a regular file or below one, and otherwise the missing ancestors are
  created first.
\<close>

function mkdir_parents :: "env \<Rightarrow> path \<Rightarrow> (world, unit) prog" where
  "mkdir_parents env p w =
     (case lookup w p of
        Some n \<Rightarrow>
          if kind n = Directory then (Inr (), w) else (Inl (OSError ''File exists''), w)
      | None \<Rightarrow>
          (case lookup w (butlast p) of
             Some n \<Rightarrow>
               if kind n = Directory then os_mkdir env p w
               else (Inl (OSError ''Not a directory''), w)
           | None \<Rightarrow>
               (case mkdir_parents env (butlast p) w of
                  (Inl e, w') \<Rightarrow> (Inl e, w')
                | (Inr u, w') \<Rightarrow> os_mkdir env p w')))"
  by pat_completeness auto
termination
  by (relation "measure (\<lambda>(env, p, w). length p)") (auto simp: lookup_def split: if_splits)

declare mkdir_parents.simps [simp del]

text \<open>\<^verbatim>\<open>open(p, 'wb')\<close> and the copy into it.\<close>

definition write_file :: "env \<Rightarrow> path \<Rightarrow> nat \<Rightarrow> payload \<Rightarrow> (world, unit) prog" where
  "write_file env p n d =
     (\<lambda>w. case fault env OpWrite p of
             Some e \<Rightarrow> (Inl e, w)
           | None \<Rightarrow>
               if is_dir w p then (Inl (OSError ''Is a directory''), w)
               else if \<not> is_dir w (butlast p) then (Inl (OSError ''No such file or directory''), w)
               else (Inr (), w\<lparr>nodes := AList.update p (Node (Regular d) n (now w)) (nodes w)\<rparr>))"

text \<open>The entries directly under a directory, in scan order.\<close>

definition children :: "world \<Rightarrow> path \<Rightarrow> path list" where
  "children w d = filter (\<lambda>p. p \<noteq> [] \<and> butlast p = d) (map fst (nodes w))"

text \<open>\<^verbatim>\<open>path.iterdir()\<close>, consumed\<close>

definition iterdir :: "env \<Rightarrow> path \<Rightarrow> (world, path list) prog" where
  "iterdir env d =
     (\<lambda>w. case fault env OpListdir d of
             Some e \<Rightarrow> (Inl e, w)
           | None \<Rightarrow>
               if is_dir w d then (Inr (children w d), w)
               else (Inl (OSError ''Not a directory''), w))"

text \<open>
  \<^verbatim>\<open>path.glob("*.*")\<close>: the entries directly under the directory whose name has a
  dot in it, files and directories alike, listed before the first one is visited.
  pathlib returns nothing for a path that is not a directory and does not raise.
\<close>

definition glob_star_dot_star :: "path \<Rightarrow> (world, path list) prog" where
  "glob_star_dot_star d =
     (\<lambda>w. (Inr (if is_dir w d then filter (\<lambda>p. CHR ''.'' \<in> set (last p)) (children w d) else []), w))"

text \<open>
  The call \<^verbatim>\<open>gdown.download(download_url, str(output_path), quiet=False)\<close>: the call
  is recorded, and the file it leaves, if any, is stamped with the current time.
\<close>

definition gdown_call :: "env \<Rightarrow> string \<Rightarrow> path \<Rightarrow> (world, bool) prog" where
  "gdown_call env url p =
     (\<lambda>w. let w1 = w\<lparr>transfers := transfers w @ [(url, p)]\<rparr>
           in case gdown_download env url p of
                (res, None) \<Rightarrow> (res, w1)
              | (res, Some (n, d)) \<Rightarrow>
                  (res, w1\<lparr>nodes := AList.update p (Node (Regular d) n (now w)) (nodes w1)\<rparr>))"

text \<open>
  \<^verbatim>\<open>zipfile.ZipFile(archive_path)\<close> and its \<^verbatim>\<open>filelist\<close>:
  \<^verbatim>\<open>BadZipFile\<close> for a file that is not a zip container.
\<close>

definition open_zip :: "env \<Rightarrow> path \<Rightarrow> (world, zentry list) prog" where
  "open_zip env p =
     (\<lambda>w. case fault env OpOpen p of
             Some e \<Rightarrow> (Inl e, w)
           | None \<Rightarrow>
               (case lookup w p of
                  None \<Rightarrow> (Inl (OSError ''No such file or directory''), w)
                | Some n \<Rightarrow>
                    (case kind n of
                       Directory \<Rightarrow> (Inl (OSError ''Is a directory''), w)
                     | Regular Opaque \<Rightarrow> (Inl (BadZipFile ''File is not a zip file''), w)
                     | Regular (Zip es) \<Rightarrow> (Inr es, w))))"

text \<open>
  \<^verbatim>\<open>zf.extract(member, extract_path)\<close>: the target is the destination joined with
  the member's name; missing directories above the target are created; a directory
  entry is created unless it is there already, a file entry is written over
  whatever regular file is there.
\<close>

definition zip_extract :: "env \<Rightarrow> path \<Rightarrow> zentry \<Rightarrow> (world, unit) prog" where
  "zip_extract env dest e =
     (if zname e = [] \<and> \<not> zis_dir e then eraise (ValueError ''Empty filename.'')
      else
        ebind (\<lambda>w. if lookup w (butlast (dest @ zname e)) = None
                    then mkdir_parents env (butlast (dest @ zname e)) w
                    else (Inr (), w))
          (\<lambda>u. if zis_dir e
                then (\<lambda>w. if is_dir w (dest @ zname e) then (Inr (), w)
                           else if lookup w (dest @ zname e) \<noteq> None
                           then (Inl (OSError ''File exists''), w)
                           else if \<not> is_dir w (butlast (dest @ zname e))
                           then (Inl (OSError ''Not a directory''), w)
                           else os_mkdir env (dest @ zname e) w)
                else write_file env (dest @ zname e) (file_size e) (zdata e)))"

section \<open>GDriveDownloader\<close>

text \<open>
  \<^verbatim>\<open>_get_mime_type(url)\<close>: the guess from the name if it is truthy, else the
  content type of a HEAD request; any exception is logged and gives \<^verbatim>\<open>None\<close>.
\<close>

definition get_mime_type :: "env \<Rightarrow> string \<Rightarrow> (world, string option) prog" where
  "get_mime_type env url =
     etry
       (case guess_type env url of
          Some m \<Rightarrow> if m \<noteq> [] then ereturn (Some m) else (\<lambda>w. (head_content_type env url, w))
        | None \<Rightarrow> (\<lambda>w. (head_content_type env url, w)))
       (\<lambda>e. ebind (logger ''WARNING'' (''Failed to detect MIME type: '' @ exn_str e))
               (\<lambda>u. ereturn None))"

text \<open>
  The class attribute \<^verbatim>\<open>MIME_TYPES\<close>: a dictionary from an archive family to the
  list of its MIME strings. Only \<^verbatim>\<open>.values()\<close> is read, in insertion order, so the
  dictionary is kept as an association list.
\<close>

definition MIME_TYPES :: "(string \<times> string list) list" where
  "MIME_TYPES =
     [(''zip'', [''application/zip'', ''application/x-zip-compressed'']),
      (''tar'', [''application/x-tar'']),
      (''gzip'', [''application/gzip'', ''application/x-gzip'']),
      (''7z'', [''application/x-7z-compressed'']),
      (''rar'', [''application/x-rar-compressed''])]"

text \<open>
  \<^verbatim>\<open>_is_compressed_file(mime_type)\<close>: \<^verbatim>\<open>if not mime_type: return False\<close> rejects
  \<^verbatim>\<open>None\<close> and the empty string; otherwise
  \<^verbatim>\<open>any(mime_type in mime_types for mime_types in self.MIME_TYPES.values())\<close>,
  where \<^verbatim>\<open>in\<close> on a list of strings is membership by equality.
\<close>

definition is_compressed_file :: "string option \<Rightarrow> bool" where
  "is_compressed_file mime_type =
     (case mime_type of
        None \<Rightarrow> False
      | Some m \<Rightarrow>
          if m = [] then False
          else list_ex (\<lambda>mime_types. m \<in> set mime_types) (map snd MIME_TYPES))"

text \<open>
  Lines 123 to 134 of \<^verbatim>\<open>download\<close>, the rewriting of the URL: \<open>Inr (Some u)\<close> is
  the URL handed to the transfer, \<open>Inr None\<close> the early return
  \<^verbatim>\<open>"Invalid Google Drive URL format"\<close>.
\<close>

definition download_url_of :: "string \<Rightarrow> exn + string option" where
  "download_url_of gdrive_url =
     (if contains ''drive.google.com'' gdrive_url then
        if contains ''file/d/'' gdrive_url then
          (case py_index (py_split ''file/d/'' gdrive_url) 1 of
             Inl e \<Rightarrow> Inl e
           | Inr seg \<Rightarrow>
               (case py_index (py_split ''/'' seg) 0 of
                  Inl e \<Rightarrow> Inl e
                | Inr file_id \<Rightarrow> Inr (Some (''https://drive.google.com/uc?id='' @ file_id))))
        else if contains ''id='' gdrive_url then
          (case py_index (py_split ''id='' gdrive_url) 1 of
             Inl e \<Rightarrow> Inl e
           | Inr seg \<Rightarrow>
               (case py_index (py_split ''&'' seg) 0 of
                  Inl e \<Rightarrow> Inl e
                | Inr file_id \<Rightarrow> Inr (Some (''https://drive.google.com/uc?id='' @ file_id))))
        else Inr None
      else Inr (Some gdrive_url))"

text \<open>The body of the \<^verbatim>\<open>try\<close> in \<^verbatim>\<open>download\<close>.\<close>

definition download_body ::
  "env \<Rightarrow> string \<Rightarrow> path \<Rightarrow> bool \<Rightarrow> bool \<Rightarrow> (world, bool \<times> string \<times> string option) prog" where
  "download_body env gdrive_url output_path force_download validate_compression =
     ebind (mkdir_parents env (parent output_path)) (\<lambda>u.
     ebind (path_exists output_path) (\<lambda>ex.
       if \<not> force_download \<and> ex
       then ereturn (True, ''File already exists'', guess_type env (path_str output_path))
       else
         (case download_url_of gdrive_url of
            Inl e \<Rightarrow> eraise e
          | Inr None \<Rightarrow> ereturn (False, ''Invalid Google Drive URL format'', None)
          | Inr (Some download_url) \<Rightarrow>
              ebind (logger ''INFO'' (''Downloading file to '' @ path_str output_path)) (\<lambda>u.
              ebind (gdown_call env download_url output_path) (\<lambda>success.
                if \<not> success then ereturn (False, ''Download failed'', None)
                else
                  ebind (path_exists output_path) (\<lambda>ex2.
                  ebind (if ex2 then ebind (stat env output_path) (\<lambda>st. ereturn (st_size st = 0))
                         else ereturn True) (\<lambda>empty_or_missing.
                    if empty_or_missing
                    then ereturn (False, ''Downloaded file is empty or missing'', None)
                    else
                      ebind (get_mime_type env (path_str output_path)) (\<lambda>mime_type.
                        if validate_compression \<and> \<not> is_compressed_file mime_type
                        then ereturn (False, ''Downloaded file is not a compressed archive'', mime_type)
                        else ereturn (True, ''Download successful'', mime_type)))))))))"

definition download ::
  "env \<Rightarrow> string \<Rightarrow> path \<Rightarrow> bool \<Rightarrow> bool \<Rightarrow> (world, bool \<times> string \<times> string option) prog" where
  "download env gdrive_url output_path force_download validate_compression =
     etry (download_body env gdrive_url output_path force_download validate_compression)
       (\<lambda>e. ebind (logger ''ERROR'' (''Download error: '' @ exn_str e))
               (\<lambda>u. ereturn (False, ''Download failed: '' @ exn_str e, None)))"

text \<open>
  The entry loop of \<^verbatim>\<open>extract\<close>. The byte counts \<^verbatim>\<open>total\<close> and
  \<^verbatim>\<open>extracted\<close> only feed the progress bar and are left out.
\<close>

fun extract_entries :: "env \<Rightarrow> path \<Rightarrow> zentry list \<Rightarrow> (world, unit) prog" where
  "extract_entries env dest [] = ereturn ()"
| "extract_entries env dest (e # es) =
     ebind (zip_extract env dest e) (\<lambda>u. extract_entries env dest es)"

text \<open>The body of the \<^verbatim>\<open>try\<close> in \<^verbatim>\<open>extract\<close>; \<^verbatim>\<open>num_threads\<close> is never read.\<close>

definition extract_body :: "env \<Rightarrow> path \<Rightarrow> path \<Rightarrow> bool \<Rightarrow> (world, bool \<times> string) prog" where
  "extract_body env archive_path extract_path remove_archive =
     ebind (mkdir_parents env extract_path) (\<lambda>u.
     ebind (path_exists archive_path) (\<lambda>ex.
       if \<not> ex then ereturn (False, ''Archive file not found'')
       else if \<not> is_compressed_file (guess_type env (path_str archive_path))
       then ereturn (False, ''File is not a compressed archive'')
       else
         ebind (logger ''INFO'' (''Extracting to '' @ path_str extract_path)) (\<lambda>u.
         ebind (open_zip env archive_path) (\<lambda>filelist.
         ebind (extract_entries env extract_path filelist) (\<lambda>u.
         ebind (iterdir env extract_path) (\<lambda>found.
           if found = [] then ereturn (False, ''No files found after extraction'')
           else
             ebind (if remove_archive
                    then ebind (unlink env archive_path) (\<lambda>u.
                           logger ''INFO'' (''Removed archive file: '' @ path_str archive_path))
                    else ereturn ()) (\<lambda>u.
               ereturn (True, ''Extraction successful''))))))))"

definition "extract" :: "env \<Rightarrow> path \<Rightarrow> path \<Rightarrow> bool \<Rightarrow> (world, bool \<times> string) prog" where
  "extract env archive_path extract_path remove_archive =
     etry (extract_body env archive_path extract_path remove_archive)
       (\<lambda>e. case e of
               BadZipFile m \<Rightarrow> ereturn (False, ''Invalid or corrupted zip file'')
             | _ \<Rightarrow> ebind (logger ''ERROR'' (''Extraction error: '' @ exn_str e))
                      (\<lambda>u. ereturn (False, ''Extraction failed: '' @ exn_str e)))"

text \<open>\<^verbatim>\<open>self.cache_dir / f"temp_{int(time.time())}.zip"\<close>\<close>

definition temp_zip_path :: "path \<Rightarrow> world \<Rightarrow> path" where
  "temp_zip_path cache_dir w = cache_dir @ [''temp_'' @ str_int (py_int (now w)) @ ''.zip'']"

text \<open>\<^verbatim>\<open>download_and_extract\<close>; it has no \<^verbatim>\<open>try\<close> of its own.\<close>

definition download_and_extract ::
  "env \<Rightarrow> path \<Rightarrow> string \<Rightarrow> path \<Rightarrow> bool \<Rightarrow> bool \<Rightarrow> (world, bool \<times> string) prog" where
  "download_and_extract env cache_dir gdrive_url extract_dir keep_zip force_download =
     (\<lambda>w0.
        ebind (download env gdrive_url (temp_zip_path cache_dir w0) force_download True)
          (\<lambda>(success, message, mime_type).
             if \<not> success then ereturn (False, ''Download phase failed: '' @ message)
             else
               ebind (extract env (temp_zip_path cache_dir w0) extract_dir (\<not> keep_zip))
                 (\<lambda>(success, message).
                    if \<not> success then
                      ebind (path_exists (temp_zip_path cache_dir w0)) (\<lambda>ex.
                      ebind (if ex then unlink env (temp_zip_path cache_dir w0) else ereturn ()) (\<lambda>u.
                        ereturn (False, ''Extraction phase failed: '' @ message)))
                    else ereturn (True, ''Download and extraction completed successfully''))) w0)"

text \<open>The loop of \<^verbatim>\<open>cleanup_cache\<close> over the paths the glob listed.\<close>

fun sweep :: "env \<Rightarrow> real \<Rightarrow> int \<Rightarrow> path list \<Rightarrow> (world, unit) prog" where
  "sweep env current_time max_age_days [] = ereturn ()"
| "sweep env current_time max_age_days (cache_file # rest) =
     ebind (stat env cache_file) (\<lambda>st.
     ebind (if current_time - st_mtime st > of_int (max_age_days * 86400)
            then ebind (unlink env cache_file) (\<lambda>u.
                   logger ''INFO'' (''Removed old cache file: '' @ path_str cache_file))
            else ereturn ()) (\<lambda>u.
       sweep env current_time max_age_days rest))"

definition cleanup_cache :: "env \<Rightarrow> path \<Rightarrow> int \<Rightarrow> (world, unit) prog" where
  "cleanup_cache env cache_dir max_age_days =
     etry (\<lambda>w. ebind (glob_star_dot_star cache_dir) (sweep env (now w) max_age_days) w)
       (\<lambda>e. logger ''ERROR'' (''Cache cleanup failed: '' @ exn_str e))"

section \<open>The memory tracker\<close>

text \<open>
  What the device code does is seen as a trace of calls: \<^verbatim>\<open>tensor.to\<close> with its
  \<^verbatim>\<open>non_blocking\<close> flag, \<^verbatim>\<open>torch.cuda.empty_cache()\<close>,
  \<^verbatim>\<open>torch.cuda.synchronize()\<close>, \<^verbatim>\<open>gc.collect()\<close> and \<^verbatim>\<open>print\<close>.
\<close>

datatype dev_event = To bool | EmptyCache | Synchronize | GcCollect | Print string

datatype tensor = Tensor (tdata: nat) (tdevice: string)

text \<open>
  The behaviour of torch, arbitrary: whether CUDA is there, whether the \<open>k\<close>-th call
  of \<^verbatim>\<open>tensor.to\<close> (counted from 0) with a given flag raises, and whether a CUDA or
  collector call raises.
\<close>

record dev_env =
  cuda_available :: bool
  to_fault :: "nat \<Rightarrow> bool \<Rightarrow> exn option"
  cuda_fault :: "dev_event \<Rightarrow> exn option"

fun is_to :: "dev_event \<Rightarrow> bool" where
  "is_to (To b) = True"
| "is_to ev = False"

definition attempts :: "dev_event list \<Rightarrow> nat" where
  "attempts tr = length (filter is_to tr)"

text \<open>\<^verbatim>\<open>tensor.to(device, non_blocking=non_blocking)\<close>\<close>

definition tensor_to ::
  "dev_env \<Rightarrow> tensor \<Rightarrow> string \<Rightarrow> bool \<Rightarrow> (dev_event list, tensor) prog" where
  "tensor_to denv t device non_blocking =
     (\<lambda>tr. case to_fault denv (attempts tr) non_blocking of
              Some e \<Rightarrow> (Inl e, tr @ [To non_blocking])
            | None \<Rightarrow> (Inr (Tensor (tdata t) device), tr @ [To non_blocking]))"

definition dev_call :: "dev_env \<Rightarrow> dev_event \<Rightarrow> (dev_event list, unit) prog" where
  "dev_call denv ev =
     (\<lambda>tr. case cuda_fault denv ev of
              Some e \<Rightarrow> (Inl e, tr @ [ev])
            | None \<Rightarrow> (Inr (), tr @ [ev]))"

text \<open>
  \<^verbatim>\<open>MemoryTracker.clear_memory(model)\<close>. The argument is \<open>None\<close> for no model (or a
  falsy one) and otherwise \<^verbatim>\<open>str(next(model.parameters()).device)\<close>.
\<close>

definition clear_memory :: "dev_env \<Rightarrow> string option \<Rightarrow> (dev_event list, unit) prog" where
  "clear_memory denv model =
     etry
       (ebind (if cuda_available denv
               then ebind (dev_call denv EmptyCache) (\<lambda>u. dev_call denv Synchronize)
               else ereturn ()) (\<lambda>u.
        ebind (dev_call denv GcCollect) (\<lambda>u.
          case model of
            None \<Rightarrow> ereturn ()
          | Some dev \<Rightarrow>
              if contains ''cuda'' dev
              then ebind (dev_call denv EmptyCache) (\<lambda>u. dev_call denv GcCollect)
              else ereturn ())))
       (\<lambda>e tr. (Inr (), tr @ [Print (''Memory clearing error: '' @ exn_str e)]))"

text \<open>
  \<^verbatim>\<open>safe_to_device(tensor, device, non_blocking=True)\<close>: both handlers are
  \<^verbatim>\<open>except RuntimeError\<close>, so any other exception leaves the function as it is.
\<close>

definition safe_to_device ::
  "dev_env \<Rightarrow> tensor \<Rightarrow> string \<Rightarrow> bool \<Rightarrow> (dev_event list, tensor) prog" where
  "safe_to_device denv t device non_blocking =
     (\<lambda>tr. case tensor_to denv t device non_blocking tr of
              (Inr moved, tr1) \<Rightarrow> (Inr moved, tr1)
            | (Inl (RuntimeError m), tr1) \<Rightarrow>
                (case clear_memory denv None tr1 of
                   (Inl e2, tr2) \<Rightarrow> (Inl e2, tr2)
                 | (Inr u, tr2) \<Rightarrow>
                     (case tensor_to denv t device False tr2 of
                        (Inr moved, tr3) \<Rightarrow> (Inr moved, tr3)
                      | (Inl (RuntimeError m2), tr3) \<Rightarrow>
                          (Inl (RuntimeError
                             (''Failed to move tensor to device even after memory cleanup: '' @ m)),
                           tr3)
                      | (Inl e3, tr3) \<Rightarrow> (Inl e3, tr3)))
            | (Inl e, tr1) \<Rightarrow> (Inl e, tr1))"

text \<open>A device on which every transfer runs out of memory, for the examples.\<close>

definition denv_oom :: dev_env where
  "denv_oom =
     \<lparr>cuda_available = True,
      to_fault = (\<lambda>k nb. Some (RuntimeError ''CUDA out of memory'')),
      cuda_fault = (\<lambda>ev. None)\<rparr>"

text \<open>
  Collaborators for the examples: the name table knows \<^verbatim>\<open>.zip\<close> only, a HEAD
  request on a local path raises, every transfer succeeds and leaves a zip container
  holding one file, and no operating-system call fails.
\<close>

definition env_std :: env where
  "env_std =
     \<lparr>guess_type = (\<lambda>name. if suffix ''.zip'' name then Some ''application/zip'' else None),
      head_content_type = (\<lambda>url. Inl (OtherError ''Invalid URL: No scheme supplied'')),
      gdown_download = (\<lambda>url p. (Inr True, Some (120, Zip [ZEntry [''a.txt''] 5 False Opaque]))),
      fault = (\<lambda>op p. None)\<rparr>"

text \<open>A directory \<^verbatim>\<open>data\<close> holding \<^verbatim>\<open>set.zip\<close>, of ten bytes or of none.\<close>

definition w_data :: "nat \<Rightarrow> world" where
  "w_data sz =
     \<lparr>nodes = [([''data''], Node Directory 4096 1),
               ([''data'', ''set.zip''], Node (Regular Opaque) sz 2)],
      now = 1000, log = [], transfers = []\<rparr>"

text \<open>
  A cache holding an archive with no entries, and a destination \<^verbatim>\<open>out\<close> that has
  a file in it already.
\<close>

definition w_populated :: world where
  "w_populated =
     \<lparr>nodes = [([''cache''], Node Directory 4096 1),
               ([''cache'', ''e.zip''], Node (Regular (Zip [])) 22 2),
               ([''out''], Node Directory 4096 3),
               ([''out'', ''old.txt''], Node (Regular Opaque) 7 3)],
      now = 1000, log = [], transfers = []\<rparr>"

text \<open>The same collaborators, except that no file can be deleted.\<close>

definition env_locked :: env where
  "env_locked =
     env_std\<lparr>fault := (\<lambda>op p. if op = OpUnlink then Some (OSError ''Permission denied'') else None)\<rparr>"

text \<open>A cache holding an archive with one file in it; no destination yet.\<close>

definition w_cache :: world where
  "w_cache =
     \<lparr>nodes = [([''cache''], Node Directory 4096 1),
               ([''cache'', ''a.zip''],
                Node (Regular (Zip [ZEntry [''a.txt''] 5 False Opaque])) 120 2)],
      now = 1000, log = [], transfers = []\<rparr>"

text \<open>The cache of \<open>w_cache\<close> after its archive has been unpacked into \<^verbatim>\<open>out\<close>.\<close>

definition w_cache_extracted :: world where
  "w_cache_extracted =
     \<lparr>nodes = [([''cache''], Node Directory 4096 1),
               ([''cache'', ''a.zip''],
                Node (Regular (Zip [ZEntry [''a.txt''] 5 False Opaque])) 120 2),
               ([''out''], Node Directory 4096 1000),
               ([''out'', ''a.txt''], Node (Regular Opaque) 5 1000)],
      now = 1000, log = [(''INFO'', ''Extracting to out'')], transfers = []\<rparr>"

text \<open>An empty cache directory, at time 1000.\<close>

definition w_start :: world where
  "w_start = \<lparr>nodes = [([''cache''], Node Directory 4096 1)], now = 1000, log = [], transfers = []\<rparr>"

text \<open>A transfer that reports success and leaves a file of no bytes.\<close>

definition env_empty_transfer :: env where
  "env_empty_transfer = env_std\<lparr>gdown_download := (\<lambda>url p. (Inr True, Some (0, Opaque)))\<rparr>"


section \<open>Classification results\<close>

lemma is_compressed_file_Some:
  "is_compressed_file (Some m) \<longleftrightarrow>
     m \<in> {''application/zip'', ''application/x-zip-compressed'', ''application/x-tar'',
          ''application/gzip'', ''application/x-gzip'', ''application/x-7z-compressed'',
          ''application/x-rar-compressed''}"
  unfolding is_compressed_file_def MIME_TYPES_def
  by auto

text \<open>
  Claim C7. \<^verbatim>\<open>_is_compressed_file(mime)\<close> is true exactly when \<open>mime\<close> is one of the
  MIME strings listed for the five configured families zip, tar, gzip, 7z and rar;
  it is false for \<^verbatim>\<open>None\<close>, for the empty string and for \<^verbatim>\<open>"text/plain"\<close>.
\<close>

theorem is_compressed_file_iff_configured:
  "(is_compressed_file mime \<longleftrightarrow>
      (\<exists>m. mime = Some m \<and> m \<in> set (concat (map snd MIME_TYPES))))
   \<and> map fst MIME_TYPES = [''zip'', ''tar'', ''gzip'', ''7z'', ''rar'']
   \<and> concat (map snd MIME_TYPES) =
        [''application/zip'', ''application/x-zip-compressed'', ''application/x-tar'',
         ''application/gzip'', ''application/x-gzip'', ''application/x-7z-compressed'',
         ''application/x-rar-compressed'']
   \<and> \<not> is_compressed_file None
   \<and> \<not> is_compressed_file (Some [])
   \<and> \<not> is_compressed_file (Some ''text/plain'')"
proof -
  have "is_compressed_file mime \<longleftrightarrow>
          (\<exists>m. mime = Some m \<and> m \<in> set (concat (map snd MIME_TYPES)))"
  proof (cases mime)
    case None
    then show ?thesis by (simp add: is_compressed_file_def)
  next
    case (Some m)
    then show ?thesis
      by (auto simp: is_compressed_file_Some MIME_TYPES_def)
  qed
  moreover have "\<not> is_compressed_file None"
    by (simp add: is_compressed_file_def)
  moreover have "\<not> is_compressed_file (Some [])"
    by (simp add: is_compressed_file_def)
  moreover have "\<not> is_compressed_file (Some ''text/plain'')"
    by (simp add: is_compressed_file_Some)
  ultimately show ?thesis
    by (simp add: MIME_TYPES_def)
qed

theorem is_compressed_file_iff_configured_witness:
  "is_compressed_file (Some ''application/x-zip-compressed'')
   \<and> \<not> is_compressed_file (Some ''application/pdf'')"
  using is_compressed_file_iff_configured [of "Some ''application/x-zip-compressed''"]
    is_compressed_file_iff_configured [of "Some ''application/pdf''"]
  by (simp add: MIME_TYPES_def)

section \<open>The file-system primitives\<close>

lemma lookup_root [simp]: "lookup w [] = Some (Node Directory 4096 0)"
  by (simp add: lookup_def)

lemma lookup_update:
  "lookup (w\<lparr>nodes := AList.update p n (nodes w)\<rparr>) q =
     (if q = [] then Some (Node Directory 4096 0) else if q = p then Some n else lookup w q)"
  by (simp add: lookup_def update_conv')

lemma lookup_delete:
  "lookup (w\<lparr>nodes := AList.delete p (nodes w)\<rparr>) q =
     (if q = [] then Some (Node Directory 4096 0) else if q = p then None else lookup w q)"
  by (simp add: lookup_def delete_conv')

lemma lookup_log [simp]: "lookup (w\<lparr>log := l\<rparr>) = lookup w"
  by (rule ext) (simp add: lookup_def)

lemma lookup_transfers [simp]: "lookup (w\<lparr>transfers := l\<rparr>) = lookup w"
  by (rule ext) (simp add: lookup_def)

lemma mkdir_parents_is_dir:
  "is_dir w p \<Longrightarrow> mkdir_parents env p w = (Inr (), w)"
  by (auto simp: mkdir_parents.simps [of env p w] is_dir_def split: option.splits)

lemma os_mkdir_keeps:
  "os_mkdir env p w = (r, w') \<Longrightarrow> lookup w p = None \<Longrightarrow>
   (lookup w q = Some n \<longrightarrow> lookup w' q = Some n)
   \<and> transfers w' = transfers w \<and> log w' = log w \<and> now w' = now w"
  by (auto simp: os_mkdir_def lookup_update split: option.splits)

lemma mkdir_parents_keeps:
  "mkdir_parents env p w = (r, w') \<Longrightarrow>
   (lookup w q = Some n \<longrightarrow> lookup w' q = Some n)
   \<and> transfers w' = transfers w \<and> log w' = log w \<and> now w' = now w"
proof (induction env p w arbitrary: r w' rule: mkdir_parents.induct)
  case (1 env p w)
  note unf = mkdir_parents.simps [of env p w]
  show ?case
  proof (cases "lookup w p")
    case (Some m)
    with "1.prems" show ?thesis
      by (auto simp: unf split: if_splits)
  next
    case None
    note pn = None
    show ?thesis
    proof (cases "lookup w (butlast p)")
      case (Some m)
      with "1.prems" pn have "os_mkdir env p w = (r, w') \<or> (w' = w)"
        by (auto simp: unf split: if_splits)
      then show ?thesis
        using os_mkdir_keeps [OF _ pn, of env r w' q n] by auto
    next
      case None
      obtain r1 w1 where rec: "mkdir_parents env (butlast p) w = (r1, w1)"
        by (cases "mkdir_parents env (butlast p) w")
      have ih: "(lookup w q = Some n \<longrightarrow> lookup w1 q = Some n)
                 \<and> transfers w1 = transfers w \<and> log w1 = log w \<and> now w1 = now w"
        using "1.IH" [OF pn None rec] .
      show ?thesis
      proof (cases r1)
        case (Inl e)
        with "1.prems" pn None rec ih show ?thesis
          by (simp add: unf)
      next
        case (Inr u)
        with "1.prems" pn None rec have om: "os_mkdir env p w1 = (r, w')"
          by (simp add: unf)
        have "q \<noteq> p \<or> lookup w q = None" using pn by auto
        then show ?thesis using ih om
          by (auto simp: os_mkdir_def lookup_update split: option.splits)
      qed
    qed
  qed
qed


section \<open>Download: the destination is there already\<close>

lemma download_body_existing:
  assumes "lookup w output_path \<noteq> None" and "\<not> force_download"
    and "is_dir w (parent output_path)"
  shows "download_body env gdrive_url output_path force_download validate_compression w =
           (Inr (True, ''File already exists'', guess_type env (path_str output_path)), w)"
  using assms
  by (simp add: download_body_def ebind_def ereturn_def path_exists_def mkdir_parents_is_dir)

lemma download_existing:
  assumes "lookup w output_path \<noteq> None" and "\<not> force_download"
    and "is_dir w (parent output_path)"
  shows "download env gdrive_url output_path force_download validate_compression w =
           (Inr (True, ''File already exists'', guess_type env (path_str output_path)), w)"
  by (simp add: download_def etry_def download_body_existing [OF assms])

section \<open>Device transfer\<close>

lemma clear_memory_returns:
  "\<exists>mid. clear_memory denv model tr = (Inr (), tr @ mid) \<and> attempts mid = 0"
  unfolding clear_memory_def etry_def ebind_def ereturn_def dev_call_def attempts_def
  by (auto split: option.splits)

text \<open>
  Claim C8. \<^verbatim>\<open>safe_to_device(tensor, device)\<close> starts with a non-blocking
  \<^verbatim>\<open>tensor.to\<close>. When that call succeeds nothing else happens. When it raises a
  \<^verbatim>\<open>RuntimeError\<close> with message \<open>m\<close>, \<^verbatim>\<open>clear_memory()\<close> runs, without a
  further transfer in it, and then exactly one more transfer is made, blocking; its
  result is returned, and when it raises a \<^verbatim>\<open>RuntimeError\<close> too the error raised
  carries \<open>m\<close>. In every run at most two transfers are attempted.
\<close>

theorem safe_to_device_retries_once:
  assumes run: "safe_to_device denv t device True tr = (r, tr')"
  shows
    "(to_fault denv (attempts tr) True = None \<longrightarrow>
        r = Inr (Tensor (tdata t) device) \<and> tr' = tr @ [To True])
     \<and> (\<forall>m. to_fault denv (attempts tr) True = Some (RuntimeError m) \<longrightarrow>
          (\<exists>mid. clear_memory denv None (tr @ [To True]) = (Inr (), tr @ To True # mid)
             \<and> attempts mid = 0
             \<and> tr' = tr @ To True # mid @ [To False]
             \<and> (to_fault denv (Suc (attempts tr)) False = None \<longrightarrow>
                  r = Inr (Tensor (tdata t) device))
             \<and> (\<forall>m2. to_fault denv (Suc (attempts tr)) False = Some (RuntimeError m2) \<longrightarrow>
                  r = Inl (RuntimeError
                        (''Failed to move tensor to device even after memory cleanup: '' @ m)))))
     \<and> (\<exists>rest. tr' = tr @ To True # rest)
     \<and> attempts tr' \<le> attempts tr + 2"
proof -
  obtain mid where mid: "clear_memory denv None (tr @ [To True]) = (Inr (), (tr @ [To True]) @ mid)"
    and mid0: "attempts mid = 0"
    using clear_memory_returns by blast
  have att: "attempts ((tr @ [To True]) @ mid) = Suc (attempts tr)"
    using mid0 by (simp add: attempts_def)
  show ?thesis
    using run mid mid0 att
    unfolding safe_to_device_def tensor_to_def
    by (auto simp: attempts_def split: option.splits exn.splits)
qed

theorem safe_to_device_retries_once_witness:
  "to_fault denv_oom (attempts []) True = Some (RuntimeError ''CUDA out of memory'')
   \<and> to_fault denv_oom (Suc (attempts [])) False = Some (RuntimeError ''CUDA out of memory'')
   \<and> fst (safe_to_device denv_oom (Tensor 7 ''cpu'') ''cuda'' True []) =
       Inl (RuntimeError
         ''Failed to move tensor to device even after memory cleanup: CUDA out of memory'')
   \<and> snd (safe_to_device denv_oom (Tensor 7 ''cpu'') ''cuda'' True []) =
       [To True, EmptyCache, Synchronize, GcCollect, To False]"
  using safe_to_device_retries_once
    [of denv_oom "Tensor 7 ''cpu''" "''cuda''" "[]"
        "fst (safe_to_device denv_oom (Tensor 7 ''cpu'') ''cuda'' True [])"
        "snd (safe_to_device denv_oom (Tensor 7 ''cpu'') ''cuda'' True [])"]
  by (simp add: denv_oom_def attempts_def clear_memory_def etry_def ebind_def ereturn_def
        dev_call_def)

text \<open>
  Claim C6. When the destination is a regular file that is not empty and
  \<^verbatim>\<open>force_download\<close> is false, \<^verbatim>\<open>download\<close> returns success with the message
  \<^verbatim>\<open>"File already exists"\<close> and the MIME type that the name table gives for the
  destination's name. The state is the one before the call: no transfer is recorded,
  no file is written and nothing is logged. This holds whatever the network would
  answer (\<open>h\<close> for the HEAD request, \<open>g\<close> for the transfer), whatever the file holds
  and whatever \<^verbatim>\<open>validate_compression\<close> is.
\<close>

theorem download_existing_nonempty_short_circuit:
  assumes "lookup w output_path = Some (Node (Regular d) sz mt)" and "0 < sz"
    and "\<not> force_download" and "is_dir w (parent output_path)"
  shows "download (env\<lparr>head_content_type := h, gdown_download := g\<rparr>) gdrive_url output_path
           force_download validate_compression w =
         (Inr (True, ''File already exists'', guess_type env (path_str output_path)), w)"
  using download_existing
    [of w output_path force_download "env\<lparr>head_content_type := h, gdown_download := g\<rparr>"
        gdrive_url validate_compression]
    assms
  by simp

theorem download_existing_nonempty_short_circuit_witness:
  "lookup (w_data 10) [''data'', ''set.zip''] = Some (Node (Regular Opaque) 10 2)
   \<and> is_dir (w_data 10) (parent [''data'', ''set.zip''])
   \<and> download (env_std\<lparr>head_content_type := (\<lambda>u. Inr (Some ''text/html'')),
                       gdown_download := (\<lambda>u p. (Inr False, None))\<rparr>)
        ''https://drive.google.com/file/d/ABC123/view'' [''data'', ''set.zip''] False True
        (w_data 10) =
      (Inr (True, ''File already exists'', Some ''application/zip''), w_data 10)"
  using download_existing_nonempty_short_circuit
    [where w = "w_data 10" and output_path = "[''data'', ''set.zip'']" and d = Opaque
       and sz = 10 and mt = 2 and force_download = False and env = env_std
       and h = "\<lambda>u. Inr (Some ''text/html'')" and g = "\<lambda>u p. (Inr False, None)"
       and gdrive_url = "''https://drive.google.com/file/d/ABC123/view''"
       and validate_compression = True]
  by (simp add: w_data_def env_std_def lookup_def is_dir_def parent_def path_str_def
        suffix_to_prefix)

lemma download_empty_only_after_transfer:
  assumes run: "download env gdrive_url output_path force_download validate_compression w =
                  (Inr (False, ''Downloaded file is empty or missing'', x), w')"
  shows "(force_download \<or> lookup w output_path = None)
         \<and> (\<exists>u. transfers w' = transfers w @ [(u, output_path)])"
proof -
  obtain rm w1 where mk: "mkdir_parents env (parent output_path) w = (rm, w1)"
    by (cases "mkdir_parents env (parent output_path) w")
  have keep: "\<And>n. lookup w output_path = Some n \<Longrightarrow> lookup w1 output_path = Some n"
    and tr: "transfers w1 = transfers w"
    using mkdir_parents_keeps [OF mk] by auto
  from run mk tr keep show ?thesis
    unfolding download_def download_body_def etry_def ebind_def ereturn_def eraise_def
      path_exists_def logger_def gdown_call_def stat_def get_mime_type_def
    by (auto simp: Let_def split: sum.splits option.splits prod.splits if_splits)
qed

text \<open>
  Claim C9. When the destination is a regular file of size zero and
  \<^verbatim>\<open>force_download\<close> is false, \<^verbatim>\<open>download\<close> still returns success with
  \<^verbatim>\<open>"File already exists"\<close> and changes nothing. The failure
  \<^verbatim>\<open>"Downloaded file is empty or missing"\<close> is only ever returned by a run that
  called the transfer for this destination, and then either \<^verbatim>\<open>force_download\<close>
  was set or the destination did not exist before the call.
\<close>

theorem download_existing_empty_short_circuit:
  assumes "lookup w output_path = Some (Node (Regular d) 0 mt)"
    and "\<not> force_download" and "is_dir w (parent output_path)"
  shows "download env gdrive_url output_path force_download validate_compression w =
           (Inr (True, ''File already exists'', guess_type env (path_str output_path)), w)
         \<and> (\<forall>env2 url2 out2 force2 val2 w2 x w2'.
               download env2 url2 out2 force2 val2 w2 =
                 (Inr (False, ''Downloaded file is empty or missing'', x), w2') \<longrightarrow>
               (force2 \<or> lookup w2 out2 = None)
               \<and> (\<exists>u. transfers w2' = transfers w2 @ [(u, out2)]))"
  using download_existing [of w output_path force_download env gdrive_url validate_compression]
    assms download_empty_only_after_transfer
  by simp

theorem download_existing_empty_short_circuit_witness:
  "lookup (w_data 0) [''data'', ''set.zip''] = Some (Node (Regular Opaque) 0 2)
   \<and> is_dir (w_data 0) (parent [''data'', ''set.zip''])
   \<and> download env_std ''https://drive.google.com/file/d/ABC123/view'' [''data'', ''set.zip'']
        False True (w_data 0) =
      (Inr (True, ''File already exists'', Some ''application/zip''), w_data 0)"
  using download_existing_empty_short_circuit
    [of "w_data 0" "[''data'', ''set.zip'']" Opaque 2 False env_std
        "''https://drive.google.com/file/d/ABC123/view''" True, THEN conjunct1]
  by (simp add: w_data_def env_std_def lookup_def is_dir_def parent_def path_str_def
        suffix_to_prefix)

section \<open>Running computations\<close>

lemma ereturn_eq [simp]: "ereturn x w = (r, w') \<longleftrightarrow> r = Inr x \<and> w' = w"
  by (auto simp: ereturn_def)

lemma eraise_eq [simp]: "eraise e w = (r, w') \<longleftrightarrow> r = Inl e \<and> w' = w"
  by (auto simp: eraise_def)

lemma ebind_Inr:
  "ebind m f w = (Inr y, w') \<longleftrightarrow> (\<exists>x w1. m w = (Inr x, w1) \<and> f x w1 = (Inr y, w'))"
  by (auto simp: ebind_def split: prod.splits sum.splits)

lemma ebind_Inl:
  "ebind m f w = (Inl e, w') \<longleftrightarrow>
     m w = (Inl e, w') \<or> (\<exists>x w1. m w = (Inr x, w1) \<and> f x w1 = (Inl e, w'))"
  by (auto simp: ebind_def split: prod.splits sum.splits)

lemma etry_Inr:
  "etry m h w = (Inr y, w') \<longleftrightarrow>
     m w = (Inr y, w') \<or> (\<exists>e w1. m w = (Inl e, w1) \<and> h e w1 = (Inr y, w'))"
  by (auto simp: etry_def split: prod.splits sum.splits)

lemma etry_Inl:
  "etry m h w = (Inl e', w') \<longleftrightarrow> (\<exists>e w1. m w = (Inl e, w1) \<and> h e w1 = (Inl e', w'))"
  by (auto simp: etry_def split: prod.splits sum.splits)

lemma logger_eq [simp]:
  "logger level msg w = (r, w') \<longleftrightarrow> r = Inr () \<and> w' = w\<lparr>log := log w @ [(level, msg)]\<rparr>"
  by (auto simp: logger_def)

lemma path_exists_eq [simp]:
  "path_exists p w = (r, w') \<longleftrightarrow> r = Inr (lookup w p \<noteq> None) \<and> w' = w"
  by (auto simp: path_exists_def)

section \<open>Which paths exist\<close>

lemma lookup_None_iff: "q \<noteq> [] \<Longrightarrow> lookup w q = None \<longleftrightarrow> q \<notin> fst ` set (nodes w)"
  by (simp add: lookup_def map_of_eq_None_iff)

lemma keys_update_sub: "fst ` set al \<subseteq> fst ` set (AList.update k v al)"
  by (simp add: dom_update subset_insertI)

lemma os_mkdir_keys:
  assumes "os_mkdir env p w = (r, w')"
  shows "fst ` set (nodes w) \<subseteq> fst ` set (nodes w')"
proof -
  from assms have
    "nodes w' = nodes w \<or> nodes w' = AList.update p (Node Directory 4096 (now w)) (nodes w)"
    by (cases "fault env OpMkdir p") (auto simp: os_mkdir_def)
  then show ?thesis
    by (elim disjE) (simp_all add: keys_update_sub)
qed

lemma mkdir_parents_keys:
  "mkdir_parents env p w = (r, w') \<Longrightarrow> fst ` set (nodes w) \<subseteq> fst ` set (nodes w')"
proof (induction env p w arbitrary: r w' rule: mkdir_parents.induct)
  case (1 env p w)
  note unf = mkdir_parents.simps [of env p w]
  show ?case
  proof (cases "lookup w p")
    case (Some m)
    with "1.prems" show ?thesis
      by (auto simp: unf split: if_splits)
  next
    case None
    note pn = None
    show ?thesis
    proof (cases "lookup w (butlast p)")
      case (Some m)
      with "1.prems" pn have "os_mkdir env p w = (r, w') \<or> w' = w"
        by (auto simp: unf split: if_splits)
      then show ?thesis
        using os_mkdir_keys [of env p w r w'] by auto
    next
      case None
      obtain r1 w1 where rec: "mkdir_parents env (butlast p) w = (r1, w1)"
        by (cases "mkdir_parents env (butlast p) w")
      have ih: "fst ` set (nodes w) \<subseteq> fst ` set (nodes w1)"
        using "1.IH" [OF pn None rec] .
      show ?thesis
      proof (cases r1)
        case (Inl e)
        with "1.prems" pn None rec ih show ?thesis
          by (simp add: unf)
      next
        case (Inr u)
        with "1.prems" pn None rec have om: "os_mkdir env p w1 = (r, w')"
          by (simp add: unf)
        from os_mkdir_keys [OF om] ih show ?thesis by blast
      qed
    qed
  qed
qed

lemma write_file_keys:
  assumes "write_file env p n d w = (r, w')"
  shows "fst ` set (nodes w) \<subseteq> fst ` set (nodes w')"
proof -
  from assms have
    "nodes w' = nodes w \<or> nodes w' = AList.update p (Node (Regular d) n (now w)) (nodes w)"
    by (cases "fault env OpWrite p") (auto simp: write_file_def split: if_splits)
  then show ?thesis
    by (elim disjE) (simp_all add: keys_update_sub)
qed

lemma zip_extract_keys:
  assumes "zip_extract env dest e w = (r, w')"
  shows "fst ` set (nodes w) \<subseteq> fst ` set (nodes w')"
proof (cases "zname e = [] \<and> \<not> zis_dir e")
  case True
  with assms show ?thesis by (simp add: zip_extract_def)
next
  case False
  let ?up = "butlast (dest @ zname e)"
  obtain r1 w1 where s1:
    "(if lookup w ?up = None then mkdir_parents env ?up w else (Inr (), w)) = (r1, w1)"
    by (cases "if lookup w ?up = None then mkdir_parents env ?up w else (Inr (), w)")
  have k1: "fst ` set (nodes w) \<subseteq> fst ` set (nodes w1)"
    using s1 mkdir_parents_keys [of env ?up w r1 w1] by (auto split: if_splits)
  show ?thesis
  proof (cases r1)
    case (Inl x)
    with assms False s1 k1 show ?thesis
      by (auto simp: zip_extract_def ebind_def)
  next
    case (Inr u)
    with assms False s1 have
      "(zis_dir e \<and> (w' = w1 \<or> os_mkdir env (dest @ zname e) w1 = (r, w')))
       \<or> (\<not> zis_dir e \<and> write_file env (dest @ zname e) (file_size e) (zdata e) w1 = (r, w'))"
      by (auto simp: zip_extract_def ebind_def split: if_splits)
    then have "fst ` set (nodes w1) \<subseteq> fst ` set (nodes w')"
      using os_mkdir_keys write_file_keys by blast
    with k1 show ?thesis by blast
  qed
qed

lemma extract_entries_keys:
  "extract_entries env dest es w = (r, w') \<Longrightarrow> fst ` set (nodes w) \<subseteq> fst ` set (nodes w')"
proof (induction es arbitrary: w)
  case Nil
  then show ?case by simp
next
  case (Cons e es)
  obtain r1 w1 where s1: "zip_extract env dest e w = (r1, w1)"
    by (cases "zip_extract env dest e w")
  from zip_extract_keys [OF s1] have k1: "fst ` set (nodes w) \<subseteq> fst ` set (nodes w1)" .
  show ?case
  proof (cases r1)
    case (Inl x)
    with Cons.prems s1 k1 show ?thesis by (simp add: ebind_def)
  next
    case (Inr u)
    with Cons.prems s1 have "extract_entries env dest es w1 = (r, w')"
      by (simp add: ebind_def)
    from Cons.IH [OF this] k1 show ?thesis by blast
  qed
qed

lemma children_mono:
  "fst ` set (nodes w) \<subseteq> fst ` set (nodes w') \<Longrightarrow> set (children w d) \<subseteq> set (children w' d)"
  by (auto simp: children_def)

section \<open>Extraction\<close>

lemma extract_handler:
  "(case e of
      BadZipFile m \<Rightarrow> ereturn (False, ''Invalid or corrupted zip file'')
    | _ \<Rightarrow> ebind (logger ''ERROR'' (''Extraction error: '' @ exn_str e))
             (\<lambda>u. ereturn (False, ''Extraction failed: '' @ exn_str e))) w1 = (r, w')
   \<Longrightarrow> \<exists>msg. r = Inr (False, msg) \<and> msg \<noteq> ''No files found after extraction''
         \<and> nodes w' = nodes w1 \<and> transfers w' = transfers w1
         \<and> (msg = ''Invalid or corrupted zip file''
              \<or> msg = ''Extraction failed: '' @ exn_str e)"
  by (cases e) (auto simp: ebind_def logger_def ereturn_def)

lemma iterdir_eq:
  "iterdir env d w = (r, w') \<Longrightarrow> w' = w"
  by (auto simp: iterdir_def split: option.splits if_splits)

lemma open_zip_eq:
  "open_zip env p w = (r, w') \<Longrightarrow> w' = w"
  by (auto simp: open_zip_def split: option.splits kind.splits payload.splits)

lemma iterdir_iff: "iterdir env d w = (r, w') \<longleftrightarrow> w' = w \<and> r = fst (iterdir env d w)"
  using iterdir_eq [of env d w] by (cases "iterdir env d w") auto

lemma open_zip_iff: "open_zip env p w = (r, w') \<longleftrightarrow> w' = w \<and> r = fst (open_zip env p w)"
  using open_zip_eq [of env p w] by (cases "open_zip env p w") auto

text \<open>The handler of \<open>extract\<close> never produces the empty-extraction message.\<close>

lemma extract_empty_iff:
  "extract env a x rm w = (Inr (False, ''No files found after extraction''), w') \<longleftrightarrow>
     (\<exists>w1 es.
        mkdir_parents env x w = (Inr (), w1)
        \<and> lookup w1 a \<noteq> None
        \<and> is_compressed_file (guess_type env (path_str a))
        \<and> open_zip env a (w1\<lparr>log := log w1 @ [(''INFO'', ''Extracting to '' @ path_str x)]\<rparr>) =
            (Inr es, w1\<lparr>log := log w1 @ [(''INFO'', ''Extracting to '' @ path_str x)]\<rparr>)
        \<and> extract_entries env x es
             (w1\<lparr>log := log w1 @ [(''INFO'', ''Extracting to '' @ path_str x)]\<rparr>) = (Inr (), w')
        \<and> iterdir env x w' = (Inr [], w'))"
  (is "?L \<longleftrightarrow> ?R")
proof
  assume ?L
  then have "extract_body env a x rm w = (Inr (False, ''No files found after extraction''), w')"
    by (auto simp: extract_def etry_Inr dest: extract_handler)
  then show ?R
    by (auto simp: extract_body_def ebind_Inr iterdir_iff open_zip_iff split: if_splits)
next
  assume ?R
  then have "extract_body env a x rm w = (Inr (False, ''No files found after extraction''), w')"
    by (auto simp: extract_body_def ebind_Inr)
  then show ?L
    by (simp add: extract_def etry_Inr)
qed


lemma is_dir_log [simp]: "is_dir (w\<lparr>log := l\<rparr>) = is_dir w"
  by (rule ext) (simp add: is_dir_def)

lemma children_log [simp]: "children (w\<lparr>log := l\<rparr>) = children w"
  by (rule ext) (simp add: children_def)

lemma extract_success_iff:
  "extract env a x rm w = (Inr (True, m), w') \<longleftrightarrow>
     (\<exists>w1 es w3 found.
        mkdir_parents env x w = (Inr (), w1)
        \<and> lookup w1 a \<noteq> None
        \<and> is_compressed_file (guess_type env (path_str a))
        \<and> open_zip env a (w1\<lparr>log := log w1 @ [(''INFO'', ''Extracting to '' @ path_str x)]\<rparr>) =
            (Inr es, w1\<lparr>log := log w1 @ [(''INFO'', ''Extracting to '' @ path_str x)]\<rparr>)
        \<and> extract_entries env x es
             (w1\<lparr>log := log w1 @ [(''INFO'', ''Extracting to '' @ path_str x)]\<rparr>) = (Inr (), w3)
        \<and> iterdir env x w3 = (Inr found, w3) \<and> found \<noteq> []
        \<and> m = ''Extraction successful''
        \<and> (if rm
            then \<exists>w4. unlink env a w3 = (Inr (), w4)
                   \<and> w' = w4\<lparr>log := log w4 @ [(''INFO'', ''Removed archive file: '' @ path_str a)]\<rparr>
            else w' = w3))"
  (is "?L \<longleftrightarrow> ?R")
proof
  assume ?L
  then have "extract_body env a x rm w = (Inr (True, m), w')"
    by (auto simp: extract_def etry_Inr dest: extract_handler)
  then show ?R
    by (auto simp: extract_body_def ebind_Inr iterdir_iff open_zip_iff split: if_splits)
next
  assume ?R
  then have "extract_body env a x rm w = (Inr (True, m), w')"
    by (cases rm)
      (auto simp: extract_body_def ebind_def logger_def ereturn_def path_exists_def)
  then show ?L
    by (simp add: extract_def etry_Inr)
qed

lemma iterdir_Inr:
  "iterdir env d w = (Inr found, w') \<Longrightarrow> found = children w d"
  by (auto simp: iterdir_def split: option.splits if_splits)

text \<open>
  Claim C10. \<^verbatim>\<open>extract\<close> returns \<^verbatim>\<open>"No files found after extraction"\<close> exactly
  when the run gets through the entry loop and the listing of the destination
  directory taken after the loop is empty. So a destination that held an entry before
  the call never gives that failure, and an archive with no entries at all is then
  reported as extracted (when the archive opens, the listing works and the deletion,
  if asked for, does not fail).
\<close>

theorem extract_empty_check:
  "(extract env a x rm w = (Inr (False, ''No files found after extraction''), w') \<longleftrightarrow>
      (\<exists>w1 es.
         mkdir_parents env x w = (Inr (), w1)
         \<and> lookup w1 a \<noteq> None
         \<and> is_compressed_file (guess_type env (path_str a))
         \<and> open_zip env a (w1\<lparr>log := log w1 @ [(''INFO'', ''Extracting to '' @ path_str x)]\<rparr>) =
             (Inr es, w1\<lparr>log := log w1 @ [(''INFO'', ''Extracting to '' @ path_str x)]\<rparr>)
         \<and> extract_entries env x es
              (w1\<lparr>log := log w1 @ [(''INFO'', ''Extracting to '' @ path_str x)]\<rparr>) = (Inr (), w')
         \<and> iterdir env x w' = (Inr [], w')))
   \<and> (children w x \<noteq> [] \<longrightarrow>
        extract env a x rm w \<noteq> (Inr (False, ''No files found after extraction''), w'))
   \<and> (children w x \<noteq> [] \<and> is_dir w x
        \<and> lookup w a = Some (Node (Regular (Zip [])) sz mt)
        \<and> is_compressed_file (guess_type env (path_str a))
        \<and> fault env OpOpen a = None \<and> fault env OpListdir x = None
        \<and> (rm \<longrightarrow> fault env OpUnlink a = None) \<longrightarrow>
        fst (extract env a x rm w) = Inr (True, ''Extraction successful''))"
proof (intro conjI impI)
  show "extract env a x rm w = (Inr (False, ''No files found after extraction''), w') \<longleftrightarrow>
      (\<exists>w1 es.
         mkdir_parents env x w = (Inr (), w1)
         \<and> lookup w1 a \<noteq> None
         \<and> is_compressed_file (guess_type env (path_str a))
         \<and> open_zip env a (w1\<lparr>log := log w1 @ [(''INFO'', ''Extracting to '' @ path_str x)]\<rparr>) =
             (Inr es, w1\<lparr>log := log w1 @ [(''INFO'', ''Extracting to '' @ path_str x)]\<rparr>)
         \<and> extract_entries env x es
              (w1\<lparr>log := log w1 @ [(''INFO'', ''Extracting to '' @ path_str x)]\<rparr>) = (Inr (), w')
         \<and> iterdir env x w' = (Inr [], w'))"
    by (rule extract_empty_iff)
next
  assume ne: "children w x \<noteq> []"
  show "extract env a x rm w \<noteq> (Inr (False, ''No files found after extraction''), w')"
  proof
    assume "extract env a x rm w = (Inr (False, ''No files found after extraction''), w')"
    then obtain w1 es where mk: "mkdir_parents env x w = (Inr (), w1)"
      and ee: "extract_entries env x es
                 (w1\<lparr>log := log w1 @ [(''INFO'', ''Extracting to '' @ path_str x)]\<rparr>) = (Inr (), w')"
      and it: "iterdir env x w' = (Inr [], w')"
      unfolding extract_empty_iff by blast
    have "fst ` set (nodes w) \<subseteq> fst ` set (nodes w')"
      using mkdir_parents_keys [OF mk] extract_entries_keys [OF ee] by auto
    then have "set (children w x) \<subseteq> set (children w' x)"
      by (rule children_mono)
    moreover have "children w' x = []"
      using iterdir_Inr [OF it] by simp
    ultimately show False using ne by simp
  qed
next
  assume h: "children w x \<noteq> [] \<and> is_dir w x
        \<and> lookup w a = Some (Node (Regular (Zip [])) sz mt)
        \<and> is_compressed_file (guess_type env (path_str a))
        \<and> fault env OpOpen a = None \<and> fault env OpListdir x = None
        \<and> (rm \<longrightarrow> fault env OpUnlink a = None)"
  then have mk: "mkdir_parents env x w = (Inr (), w)"
    by (simp add: mkdir_parents_is_dir)
  from h mk show "fst (extract env a x rm w) = Inr (True, ''Extraction successful'')"
    by (simp add: extract_def extract_body_def etry_def ebind_def ereturn_def path_exists_def
          logger_def open_zip_def iterdir_def unlink_def)
qed

theorem extract_empty_check_witness:
  "children w_populated [''out''] \<noteq> [] \<and> is_dir w_populated [''out'']
   \<and> lookup w_populated [''cache'', ''e.zip''] = Some (Node (Regular (Zip [])) 22 2)
   \<and> is_compressed_file (guess_type env_std (path_str [''cache'', ''e.zip'']))
   \<and> fst (extract env_std [''cache'', ''e.zip''] [''out''] True w_populated) =
       Inr (True, ''Extraction successful'')"
  using extract_empty_check
    [where env = env_std and a = "[''cache'', ''e.zip'']" and x = "[''out'']" and rm = True
       and w = w_populated and sz = 22 and mt = 2, THEN conjunct2, THEN conjunct2]
  by (simp add: w_populated_def env_std_def children_def is_dir_def lookup_def path_str_def
        suffix_to_prefix is_compressed_file_Some)

lemma unlink_Inl: "unlink env p w = (Inl e, w') \<Longrightarrow> w' = w"
  by (auto simp: unlink_def split: option.splits if_splits)

lemma cleanup_cache_returns: "\<exists>w'. cleanup_cache env c d w = (Inr (), w')"
  by (auto simp: cleanup_cache_def etry_def logger_def split: prod.splits sum.splits)

text \<open>
  Claim C3, as the code has it. The deletion of the source archive is inside the
  \<^verbatim>\<open>try\<close> of \<^verbatim>\<open>extract\<close>: when the run without deletion succeeds (every entry
  extracted, the destination not empty) and the deletion raises \<open>e\<close>, the run with
  \<^verbatim>\<open>remove_archive\<close> reports failure, with \<^verbatim>\<open>"Extraction failed: "\<close> followed by the
  text of \<open>e\<close>, and the extracted files stay where they are. \<^verbatim>\<open>cleanup_cache\<close> always
  returns normally; an exception in its sweep ends up in the log only.
\<close>

theorem extract_reports_failed_deletion:
  assumes ok: "extract env a x False w = (Inr (True, m), w1)"
    and del: "unlink env a w1 = (Inl e, w2)"
  shows "(\<exists>msg. fst (extract env a x True w) = Inr (False, msg)
            \<and> (msg = ''Invalid or corrupted zip file'' \<or> msg = ''Extraction failed: '' @ exn_str e)
            \<and> ((\<forall>t. e \<noteq> BadZipFile t) \<longrightarrow> msg = ''Extraction failed: '' @ exn_str e))
         \<and> nodes (snd (extract env a x True w)) = nodes w1
         \<and> (\<forall>c d w0. \<exists>w0'. cleanup_cache env c d w0 = (Inr (), w0'))
         \<and> (\<forall>c d w0 e0 ws.
               ebind (glob_star_dot_star c) (sweep env (now w0) d) w0 = (Inl e0, ws) \<longrightarrow>
               cleanup_cache env c d w0 =
                 (Inr (), ws\<lparr>log := log ws @ [(''ERROR'', ''Cache cleanup failed: '' @ exn_str e0)]\<rparr>))"
proof -
  from ok obtain wm es found where
    mk: "mkdir_parents env x w = (Inr (), wm)"
    and ex: "lookup wm a \<noteq> None"
    and ty: "is_compressed_file (guess_type env (path_str a))"
    and oz: "open_zip env a (wm\<lparr>log := log wm @ [(''INFO'', ''Extracting to '' @ path_str x)]\<rparr>) =
              (Inr es, wm\<lparr>log := log wm @ [(''INFO'', ''Extracting to '' @ path_str x)]\<rparr>)"
    and ee: "extract_entries env x es
               (wm\<lparr>log := log wm @ [(''INFO'', ''Extracting to '' @ path_str x)]\<rparr>) = (Inr (), w1)"
    and it: "iterdir env x w1 = (Inr found, w1)" and ne: "found \<noteq> []"
    unfolding extract_success_iff by auto
  have w2: "w2 = w1" using unlink_Inl [OF del] .
  have body: "extract_body env a x True w = (Inl e, w1)"
    using mk ex ty oz ee it ne del w2
    by (auto simp: extract_body_def ebind_def logger_def ereturn_def path_exists_def)
  have run: "extract env a x True w =
      (case e of
         BadZipFile t \<Rightarrow> ereturn (False, ''Invalid or corrupted zip file'')
       | _ \<Rightarrow> ebind (logger ''ERROR'' (''Extraction error: '' @ exn_str e))
                (\<lambda>u. ereturn (False, ''Extraction failed: '' @ exn_str e))) w1"
    by (simp add: extract_def etry_def body)
  have first: "\<exists>msg. fst (extract env a x True w) = Inr (False, msg)
            \<and> (msg = ''Invalid or corrupted zip file'' \<or> msg = ''Extraction failed: '' @ exn_str e)
            \<and> ((\<forall>t. e \<noteq> BadZipFile t) \<longrightarrow> msg = ''Extraction failed: '' @ exn_str e)"
    unfolding run by (cases e) (auto simp: ebind_def logger_def ereturn_def)
  have second: "nodes (snd (extract env a x True w)) = nodes w1"
    unfolding run by (cases e) (auto simp: ebind_def logger_def ereturn_def)
  have fourth: "\<And>c d w0 e0 ws.
               ebind (glob_star_dot_star c) (sweep env (now w0) d) w0 = (Inl e0, ws) \<Longrightarrow>
               cleanup_cache env c d w0 =
                 (Inr (), ws\<lparr>log := log ws @ [(''ERROR'', ''Cache cleanup failed: '' @ exn_str e0)]\<rparr>)"
    by (simp add: cleanup_cache_def etry_def logger_def)
  show ?thesis
    using first second cleanup_cache_returns fourth by blast
qed

section \<open>Download and extract\<close>

lemma unlink_Inr: "unlink env p w = (Inr u, w') \<Longrightarrow> lookup w' p = None"
  by (auto simp: unlink_def lookup_delete split: option.splits if_splits)

lemma extract_success_archive:
  assumes run: "extract env a x rm w = (Inr (True, m), w')" and a: "a \<noteq> []"
  shows "lookup w' a \<noteq> None \<longleftrightarrow> \<not> rm"
proof -
  from run obtain wm es w3 where
    ex: "lookup wm a \<noteq> None"
    and ee: "extract_entries env x es
               (wm\<lparr>log := log wm @ [(''INFO'', ''Extracting to '' @ path_str x)]\<rparr>) = (Inr (), w3)"
    and fin: "if rm
            then \<exists>w4. unlink env a w3 = (Inr (), w4)
                   \<and> w' = w4\<lparr>log := log w4 @ [(''INFO'', ''Removed archive file: '' @ path_str a)]\<rparr>
            else w' = w3"
    unfolding extract_success_iff by blast
  have "a \<in> fst ` set (nodes wm)"
    using ex a by (simp add: lookup_None_iff)
  then have "a \<in> fst ` set (nodes w3)"
    using extract_entries_keys [OF ee] by auto
  then have in3: "lookup w3 a \<noteq> None"
    using a by (simp add: lookup_None_iff)
  show ?thesis
  proof (cases rm)
    case True
    with fin obtain w4 where "unlink env a w3 = (Inr (), w4)"
      and "w' = w4\<lparr>log := log w4 @ [(''INFO'', ''Removed archive file: '' @ path_str a)]\<rparr>"
      by auto
    then show ?thesis using True unlink_Inr by simp
  next
    case False
    with fin in3 show ?thesis by simp
  qed
qed

lemma download_returns: "\<exists>r w'. download env u out f v w = (Inr r, w')"
  by (auto simp: download_def etry_def ebind_def logger_def ereturn_def
        split: prod.splits sum.splits)

lemma extract_returns: "\<exists>r w'. extract env a x rm w = (Inr r, w')"
proof (cases "extract_body env a x rm w")
  case (Pair r w1)
  show ?thesis
  proof (cases r)
    case (Inl e)
    with Pair show ?thesis
      by (cases e) (auto simp: extract_def etry_def ebind_def logger_def ereturn_def)
  next
    case (Inr y)
    with Pair show ?thesis by (simp add: extract_def etry_def)
  qed
qed

text \<open>
  Claim C1, as the code has it. When \<^verbatim>\<open>download_and_extract\<close> returns: after a
  success the temporary archive exists exactly when \<^verbatim>\<open>keep_zip\<close> was set; after a
  failure of the extraction phase it does not exist; after a failure of the download
  phase nothing is cleaned up and the state is the one \<^verbatim>\<open>download\<close> left.
\<close>

theorem download_and_extract_temp_archive:
  assumes run: "download_and_extract env c u x keep force w = (Inr (ok, msg), w')"
  shows "(ok \<longrightarrow> (lookup w' (temp_zip_path c w) \<noteq> None \<longleftrightarrow> keep))
       \<and> (\<not> ok \<longrightarrow>
            (\<exists>m t. download env u (temp_zip_path c w) force True w = (Inr (False, m, t), w')
                  \<and> msg = ''Download phase failed: '' @ m)
            \<or> ((\<exists>m. msg = ''Extraction phase failed: '' @ m)
                \<and> lookup w' (temp_zip_path c w) = None))"
proof -
  let ?tmp = "temp_zip_path c w"
  have tmp: "?tmp \<noteq> []" by (simp add: temp_zip_path_def)
  obtain rd wd where d: "download env u ?tmp force True w = (rd, wd)"
    by (cases "download env u ?tmp force True w")
  with download_returns [of env u ?tmp force True w]
  obtain s1 m1 t1 where rd: "rd = Inr (s1, m1, t1)"
    by (cases rd) auto
  show ?thesis
  proof (cases s1)
    case False
    with run d rd show ?thesis
      by (auto simp: download_and_extract_def ebind_def)
  next
    case True
    obtain re we where e: "extract env ?tmp x (\<not> keep) wd = (re, we)"
      by (cases "extract env ?tmp x (\<not> keep) wd")
    with extract_returns [of env ?tmp x "\<not> keep" wd]
    obtain s2 m2 where re: "re = Inr (s2, m2)"
      by (cases re) auto
    show ?thesis
    proof (cases s2)
      case True
      have "lookup we ?tmp \<noteq> None \<longleftrightarrow> keep"
        using extract_success_archive [OF _ tmp, of env x "\<not> keep" wd m2 we] e re True by simp
      moreover have "ok \<and> w' = we"
        using run d rd \<open>s1\<close> e re True
        by (auto simp: download_and_extract_def ebind_def)
      ultimately show ?thesis by simp
    next
      case False
      have "\<not> ok \<and> msg = ''Extraction phase failed: '' @ m2 \<and> lookup w' ?tmp = None"
        using run d rd \<open>s1\<close> e re False
        by (auto simp: download_and_extract_def ebind_def path_exists_def
              split: if_splits prod.splits sum.splits dest: unlink_Inr)
      then show ?thesis by blast
    qed
  qed
qed

section \<open>Runs on concrete states\<close>

lemmas run_defs =
  download_and_extract_def download_def download_body_def download_url_of_def
  extract_def extract_body_def cleanup_cache_def temp_zip_path_def
  etry_def ebind_def ereturn_def eraise_def path_exists_def logger_def stat_def
  gdown_call_def get_mime_type_def open_zip_def zip_extract_def iterdir_def unlink_def
  write_file_def os_mkdir_def glob_star_dot_star_def children_def is_dir_def lookup_def
  parent_def path_str_def suffix_to_prefix is_compressed_file_Some py_index_def py_int_def
  str_int_def

lemma temp_zip_path_start: "temp_zip_path [''cache''] w_start = [''cache'', ''temp_1000.zip'']"
  by (simp add: temp_zip_path_def w_start_def py_int_def str_int_def str_nat.simps)

lemma extract_keeping_archive_run:
  "extract env_locked [''cache'', ''a.zip''] [''out''] False w_cache =
     (Inr (True, ''Extraction successful''), w_cache_extracted)"
  by (simp add: run_defs mkdir_parents.simps env_locked_def env_std_def w_cache_def
        w_cache_extracted_def)

lemma unlink_locked_run:
  "unlink env_locked [''cache'', ''a.zip''] w_cache_extracted =
     (Inl (OSError ''Permission denied''), w_cache_extracted)"
  by (simp add: unlink_def env_locked_def env_std_def)

lemma extract_removing_archive_run:
  "extract env_locked [''cache'', ''a.zip''] [''out''] True w_cache =
     (Inr (False, ''Extraction failed: Permission denied''),
      w_cache_extracted\<lparr>log := log w_cache_extracted
                               @ [(''ERROR'', ''Extraction error: Permission denied'')]\<rparr>)"
  by (simp add: run_defs mkdir_parents.simps env_locked_def env_std_def w_cache_def
        w_cache_extracted_def)

text \<open>
  Against claim C3 as stated: with an archive that cannot be deleted, the run without
  deletion succeeds, so every entry is extracted; the deletion raises; and the run
  with \<^verbatim>\<open>remove_archive\<close> reports the extraction as failed.
\<close>

theorem extract_failed_deletion_counterexample:
  "extract env_locked [''cache'', ''a.zip''] [''out''] False w_cache =
     (Inr (True, ''Extraction successful''), w_cache_extracted)
   \<and> unlink env_locked [''cache'', ''a.zip''] w_cache_extracted =
       (Inl (OSError ''Permission denied''), w_cache_extracted)
   \<and> extract env_locked [''cache'', ''a.zip''] [''out''] True w_cache =
       (Inr (False, ''Extraction failed: Permission denied''),
        w_cache_extracted\<lparr>log := log w_cache_extracted
                                 @ [(''ERROR'', ''Extraction error: Permission denied'')]\<rparr>)"
  by (simp add: extract_keeping_archive_run unlink_locked_run extract_removing_archive_run)

theorem extract_reports_failed_deletion_witness:
  "extract env_locked [''cache'', ''a.zip''] [''out''] False w_cache =
     (Inr (True, ''Extraction successful''), w_cache_extracted)
   \<and> unlink env_locked [''cache'', ''a.zip''] w_cache_extracted =
       (Inl (OSError ''Permission denied''), w_cache_extracted)
   \<and> nodes (snd (extract env_locked [''cache'', ''a.zip''] [''out''] True w_cache)) =
       nodes w_cache_extracted"
  using extract_reports_failed_deletion [OF extract_keeping_archive_run unlink_locked_run] extract_keeping_archive_run unlink_locked_run
  by simp

text \<open>
  Against claim C1 as stated: the transfer reports success and leaves a file of no
  bytes; the download phase fails, and the temporary archive is still in the cache
  directory when \<^verbatim>\<open>download_and_extract\<close> returns.
\<close>

theorem download_and_extract_temp_archive_counterexample:
  "fst (download_and_extract env_empty_transfer [''cache'']
          ''https://drive.google.com/file/d/ABC123/view?usp=sharing'' [''out''] False False w_start) =
     Inr (False, ''Download phase failed: Downloaded file is empty or missing'')
   \<and> lookup (snd (download_and_extract env_empty_transfer [''cache'']
          ''https://drive.google.com/file/d/ABC123/view?usp=sharing'' [''out''] False False w_start))
        (temp_zip_path [''cache''] w_start) = Some (Node (Regular Opaque) 0 1000)"
  unfolding temp_zip_path_start
  by (simp add: run_defs mkdir_parents.simps py_split.simps str_nat.simps
        env_empty_transfer_def env_std_def w_start_def)

theorem download_and_extract_temp_archive_witness:
  "fst (download_and_extract env_std [''cache'']
          ''https://drive.google.com/file/d/ABC123/view?usp=sharing'' [''out''] True False w_start) =
     Inr (True, ''Download and extraction completed successfully'')
   \<and> lookup (snd (download_and_extract env_std [''cache'']
          ''https://drive.google.com/file/d/ABC123/view?usp=sharing'' [''out''] True False w_start))
        (temp_zip_path [''cache''] w_start) \<noteq> None"
proof -
  let ?run = "download_and_extract env_std [''cache'']
          ''https://drive.google.com/file/d/ABC123/view?usp=sharing'' [''out''] True False w_start"
  have ev: "fst ?run = Inr (True, ''Download and extraction completed successfully'')"
    by (simp add: run_defs mkdir_parents.simps py_split.simps str_nat.simps
          env_std_def w_start_def)
  then have run: "?run = (Inr (True, ''Download and extraction completed successfully''), snd ?run)"
    by (simp add: prod_eq_iff)
  from download_and_extract_temp_archive [OF run] ev show ?thesis
    by simp
qed








section \<open>The cache sweep\<close>









section \<open>Resolving the URL\<close>




















end
